theory Spec2Isabelle
  imports Complex_Main
begin

section \<open>Data model\<close>

text \<open>
  The service of \<^verbatim>\<open>main.py\<close> receives a JSON object, validates it against the
  schema \<^verbatim>\<open>PenguinFeatures\<close>, and passes one row of four numbers to the classifier
  loaded at start-up. A decoded JSON value is a value of \<open>json\<close>; a JSON number is
  held as the rational it denotes (rounding to a double, overflow and the non-finite
  floats are outside the model). A request payload is the decoded object, a dictionary
  from field names to values.
\<close>

datatype json =
    JNull
  | JBool bool
  | JNum rat
  | JStr string
  | JArr "json list"
  | JObj "(string \<times> json) list"

type_synonym payload = "string \<rightharpoonup> json"

text \<open>
  Python's \<^verbatim>\<open>float(s)\<close> on a string is library code; it is a parameter of the model
  (\<open>None\<close> where \<^verbatim>\<open>float\<close> raises \<^verbatim>\<open>ValueError\<close>).
\<close>

type_synonym str_parser = "string \<Rightarrow> rat option"

text \<open>
  The loaded classifier, \<^verbatim>\<open>model.predict\<close>: from a two-dimensional array (a list of
  rows) to an array of labels, one numpy scalar per row.
\<close>

type_synonym classifier = "rat list list \<Rightarrow> rat list"

text \<open>The errors a field can fail with.\<close>

datatype verr =
    MissingError
  | FloatError
  | NumberNotGeError
  | ValidatorError string

text \<open>
  The class \<^verbatim>\<open>PenguinFeatures(BaseModel)\<close>, in the order of its declarations.
\<close>

record PenguinFeatures =
  bill_length_mm :: rat
  bill_depth_mm :: rat
  flipper_length_mm :: rat
  body_mass_g :: rat

text \<open>
  Exceptions other than validation errors: those the code raises itself, and
  \<open>LibraryError\<close> for one raised inside a library call (the storage client, the
  temporary file, the model loader).
\<close>

datatype exn =
    IndexError
  | AttributeError
  | ValueError string
  | RuntimeError string
  | LibraryError string

datatype handler_result =
    Return int
  | Raise_HTTPException nat string
  | Raise exn

datatype resp_body =
    Prediction int
  | Detail "(string \<times> verr) list"
  | HTTPDetail string
  | InternalServerError

record response =
  status :: nat
  body :: resp_body

section \<open>Validation: \<^verbatim>\<open>PenguinFeatures\<close> in \<^verbatim>\<open>main.py\<close>\<close>

text \<open>
  A field annotated \<^verbatim>\<open>float\<close> is coerced with \<^verbatim>\<open>float(v)\<close>: numbers pass, a boolean
  becomes 1 or 0, a string is parsed, and \<^verbatim>\<open>None\<close>, lists and dictionaries are
  type errors.
\<close>

fun float_validator :: "str_parser \<Rightarrow> json \<Rightarrow> verr + rat" where
  "float_validator sf (JNum q) = Inr q"
| "float_validator sf (JBool b) = Inr (if b then 1 else 0)"
| "float_validator sf (JStr s) = (case sf s of Some q \<Rightarrow> Inr q | None \<Rightarrow> Inl FloatError)"
| "float_validator sf JNull = Inl FloatError"
| "float_validator sf (JArr xs) = Inl FloatError"
| "float_validator sf (JObj kvs) = Inl FloatError"

text \<open>The constraint \<^verbatim>\<open>Field(..., ge=0)\<close>.\<close>

definition number_ge :: "rat \<Rightarrow> verr + rat" where
  "number_ge v = (if v \<ge> 0 then Inr v else Inl NumberNotGeError)"

text \<open>
  \<^verbatim>\<open>@validator('*') def check_not_negative(cls, v)\<close>: it runs on every field, after
  the coercion and the constraint.
\<close>

definition check_not_negative :: "rat \<Rightarrow> verr + rat" where
  "check_not_negative v =
     (if v < 0 then Inl (ValidatorError ''Value must be non-negative'') else Inr v)"

text \<open>
  One field: \<^verbatim>\<open>Field(...)\<close> makes it required; the first failing step ends the
  field's validation.
\<close>

definition validate_field :: "str_parser \<Rightarrow> payload \<Rightarrow> string \<Rightarrow> verr + rat" where
  "validate_field sf p k =
     (case p k of
        None \<Rightarrow> Inl MissingError
      | Some v \<Rightarrow>
          (case float_validator sf v of
             Inl e \<Rightarrow> Inl e
           | Inr x \<Rightarrow>
               (case number_ge x of
                  Inl e \<Rightarrow> Inl e
                | Inr y \<Rightarrow> check_not_negative y)))"

text \<open>The field names, in declaration order.\<close>

definition required_fields :: "string list" where
  "required_fields = [''bill_length_mm'', ''bill_depth_mm'', ''flipper_length_mm'', ''body_mass_g'']"

text \<open>
  Every field is validated and the errors of all of them are collected, each with its
  field name. Keys of the payload that the schema does not declare are never looked at
  (the schema sets no \<^verbatim>\<open>Config.extra\<close>, and the default is to ignore them).
\<close>

definition field_errors :: "str_parser \<Rightarrow> payload \<Rightarrow> (string \<times> verr) list" where
  "field_errors sf p =
     concat (map (\<lambda>k. case validate_field sf p k of Inl e \<Rightarrow> [(k, e)] | Inr _ \<Rightarrow> []) required_fields)"

definition validate :: "str_parser \<Rightarrow> payload \<Rightarrow> (string \<times> verr) list + PenguinFeatures" where
  "validate sf p =
     (case (validate_field sf p ''bill_length_mm'', validate_field sf p ''bill_depth_mm'',
            validate_field sf p ''flipper_length_mm'', validate_field sf p ''body_mass_g'') of
        (Inr a, Inr b, Inr c, Inr d) \<Rightarrow>
          Inr \<lparr>bill_length_mm = a, bill_depth_mm = b, flipper_length_mm = c, body_mass_g = d\<rparr>
      | _ \<Rightarrow> Inl (field_errors sf p))"

section \<open>The handler \<^verbatim>\<open>predict\<close> and the route \<^verbatim>\<open>POST /predict\<close>\<close>

text \<open>\<^verbatim>\<open>int(pred)\<close> truncates towards zero.\<close>

definition py_int :: "rat \<Rightarrow> int" where
  "py_int q = (if 0 \<le> q then \<lfloor>q\<rfloor> else \<lceil>q\<rceil>)"

text \<open>
  The handler of \<^verbatim>\<open>main.py\<close>. The module-level \<^verbatim>\<open>model\<close> is its first argument
  (\<open>None\<close> is Python's \<^verbatim>\<open>None\<close>, on which \<^verbatim>\<open>model.predict\<close> raises AttributeError).
  The second component of the result lists the arrays \<^verbatim>\<open>model.predict\<close> was called
  with during the request.
\<close>

definition predict :: "classifier option \<Rightarrow> PenguinFeatures \<Rightarrow> handler_result \<times> rat list list list" where
  "predict model f =
     (let data = [[bill_length_mm f, bill_depth_mm f, flipper_length_mm f, body_mass_g f]]
      in case model of
           None \<Rightarrow> (Raise AttributeError, [])
         | Some clf \<Rightarrow>
             (case clf data of
                [] \<Rightarrow> (Raise IndexError, [data])
              | pred # _ \<Rightarrow> (Return (py_int pred), [data])))"

text \<open>
  What the framework sends for each outcome of a handler: the returned dictionary with
  status 200, an \<^verbatim>\<open>HTTPException\<close> with its own status, any other exception as 500.
\<close>

fun respond :: "handler_result \<Rightarrow> response" where
  "respond (Return k) = \<lparr>status = 200, body = Prediction k\<rparr>"
| "respond (Raise_HTTPException s d) = \<lparr>status = s, body = HTTPDetail d\<rparr>"
| "respond (Raise e) = \<lparr>status = 500, body = InternalServerError\<rparr>"

text \<open>
  The route: a payload that fails validation is answered with 422 and the list of field
  errors, and the handler is not called.
\<close>

definition post_predict ::
    "classifier option \<Rightarrow> str_parser \<Rightarrow> payload \<Rightarrow> response \<times> rat list list list" where
  "post_predict model sf p =
     (case validate sf p of
        Inl errs \<Rightarrow> (\<lparr>status = 422, body = Detail errs\<rparr>, [])
      | Inr f \<Rightarrow> (case predict model f of (r, calls) \<Rightarrow> (respond r, calls)))"

section \<open>The copy of the service in \<^verbatim>\<open>test_api.py\<close>\<close>

text \<open>
  \<^verbatim>\<open>test_api.py\<close> defines the schema and the handler again. Its validator is declared
  \<^verbatim>\<open>pre=True\<close>, so it sees the raw value before the coercion, and tests
  \<^verbatim>\<open>isinstance(v, (int, float)) and v < 0\<close> (a boolean is an \<^verbatim>\<open>int\<close>, and never
  below 0). Its \<^verbatim>\<open>model\<close> is \<^verbatim>\<open>None\<close> when the file could not be loaded, and its
  handler checks for that.
\<close>

fun check_not_negative_test :: "json \<Rightarrow> verr + json" where
  "check_not_negative_test (JNum q) =
     (if q < 0 then Inl (ValidatorError ''Value must be non-negative'') else Inr (JNum q))"
| "check_not_negative_test v = Inr v"

definition validate_field_test :: "str_parser \<Rightarrow> payload \<Rightarrow> string \<Rightarrow> verr + rat" where
  "validate_field_test sf p k =
     (case p k of
        None \<Rightarrow> Inl MissingError
      | Some v \<Rightarrow>
          (case check_not_negative_test v of
             Inl e \<Rightarrow> Inl e
           | Inr v' \<Rightarrow>
               (case float_validator sf v' of
                  Inl e \<Rightarrow> Inl e
                | Inr x \<Rightarrow> number_ge x)))"

definition field_errors_test :: "str_parser \<Rightarrow> payload \<Rightarrow> (string \<times> verr) list" where
  "field_errors_test sf p =
     concat (map (\<lambda>k. case validate_field_test sf p k of Inl e \<Rightarrow> [(k, e)] | Inr _ \<Rightarrow> []) required_fields)"

definition validate_test :: "str_parser \<Rightarrow> payload \<Rightarrow> (string \<times> verr) list + PenguinFeatures" where
  "validate_test sf p =
     (case (validate_field_test sf p ''bill_length_mm'', validate_field_test sf p ''bill_depth_mm'',
            validate_field_test sf p ''flipper_length_mm'', validate_field_test sf p ''body_mass_g'') of
        (Inr a, Inr b, Inr c, Inr d) \<Rightarrow>
          Inr \<lparr>bill_length_mm = a, bill_depth_mm = b, flipper_length_mm = c, body_mass_g = d\<rparr>
      | _ \<Rightarrow> Inl (field_errors_test sf p))"

definition predict_test :: "classifier option \<Rightarrow> PenguinFeatures \<Rightarrow> handler_result \<times> rat list list list" where
  "predict_test model f =
     (case model of
        None \<Rightarrow> (Raise_HTTPException 500 ''Model not loaded'', [])
      | Some clf \<Rightarrow>
          (let data = [[bill_length_mm f, bill_depth_mm f, flipper_length_mm f, body_mass_g f]]
           in case clf data of
                [] \<Rightarrow> (Raise IndexError, [data])
              | pred # _ \<Rightarrow> (Return (py_int pred), [data])))"

definition post_predict_test ::
    "classifier option \<Rightarrow> str_parser \<Rightarrow> payload \<Rightarrow> response \<times> rat list list list" where
  "post_predict_test model sf p =
     (case validate_test sf p of
        Inl errs \<Rightarrow> (\<lparr>status = 422, body = Detail errs\<rparr>, [])
      | Inr f \<Rightarrow> (case predict_test model f of (r, calls) \<Rightarrow> (respond r, calls)))"

section \<open>Requests in sequence\<close>



section \<open>Loading the model at start-up\<close>

text \<open>
  What the module-level code of \<^verbatim>\<open>main.py\<close> reads from outside the process: the
  environment, the object store (\<open>gcs_download bucket blob\<close> stands for lines 20 to 26:
  client, bucket, blob, temporary file, download, giving the temporary file's name or the
  exception raised on the way), the file system, and the deserialiser.
\<close>

record world =
  getenv :: "string \<rightharpoonup> string"
  gcs_download :: "string \<Rightarrow> string \<Rightarrow> exn + string"
  path_exists :: "string \<Rightarrow> bool"
  load_model :: "string \<Rightarrow> exn + classifier"

text \<open>\<^verbatim>\<open>not x\<close> on the result of \<^verbatim>\<open>os.getenv\<close>: unset, or set to the empty string.\<close>

fun py_not :: "string option \<Rightarrow> bool" where
  "py_not None = True"
| "py_not (Some s) = (s = [])"

definition download_model_from_gcs :: "world \<Rightarrow> exn + string" where
  "download_model_from_gcs w =
     (let bucket_name = getenv w ''GCS_BUCKET_NAME'';
          blob_name = getenv w ''GCS_BLOB_NAME''
      in if py_not bucket_name \<or> py_not blob_name
         then Inl (ValueError ''GCS_BUCKET_NAME and GCS_BLOB_NAME env vars must be set'')
         else (case (bucket_name, blob_name) of
                 (Some b, Some k) \<Rightarrow> gcs_download w b k
               | _ \<Rightarrow> Inl (ValueError ''GCS_BUCKET_NAME and GCS_BLOB_NAME env vars must be set'')))"

text \<open>
  The \<^verbatim>\<open>try\<close> block that sets \<^verbatim>\<open>MODEL_PATH\<close>. The first component lists, in order,
  what the block did: the call of \<^verbatim>\<open>download_model_from_gcs\<close>, the message printed in
  the handler, the test \<^verbatim>\<open>os.path.exists\<close>.
\<close>

datatype event = Download | Print | Exists string

definition MODEL_PATH :: "world \<Rightarrow> event list \<times> (exn + string)" where
  "MODEL_PATH w =
     (case download_model_from_gcs w of
        Inr path \<Rightarrow> ([Download], Inr path)
      | Inl e \<Rightarrow>
          (if path_exists w ''penguin_model.json''
           then ([Download, Print, Exists ''penguin_model.json''], Inr ''penguin_model.json'')
           else ([Download, Print, Exists ''penguin_model.json''],
                 Inl (RuntimeError ''No model available''))))"

text \<open>
  The whole module-level code: an exception that leaves it ends the import, and the
  process serves nothing; otherwise \<^verbatim>\<open>model\<close> holds the loaded classifier.
\<close>

definition startup :: "world \<Rightarrow> exn + classifier option" where
  "startup w =
     (case snd (MODEL_PATH w) of
        Inl e \<Rightarrow> Inl e
      | Inr path \<Rightarrow>
          (case load_model w path of
             Inl e \<Rightarrow> Inl e
           | Inr clf \<Rightarrow> Inr (Some clf)))"

section \<open>The training script\<close>


section \<open>Properties of the inputs\<close>






text \<open>
  The decimal literals among the strings that \<^verbatim>\<open>float\<close> accepts: an optional sign,
  digits, an optional point and digits, with a digit on one side of the point at least.
\<close>

definition digit_val :: "char \<Rightarrow> nat option" where
  "digit_val c = (if c \<in> set ''0123456789'' then Some (of_char c - 48) else None)"

fun digits_to_nat :: "string \<Rightarrow> nat \<Rightarrow> nat option" where
  "digits_to_nat [] acc = Some acc"
| "digits_to_nat (c # cs) acc =
     (case digit_val c of None \<Rightarrow> None | Some d \<Rightarrow> digits_to_nat cs (10 * acc + d))"

definition decimal_literal :: str_parser where
  "decimal_literal s =
     (let (neg, digs) =
            (case s of
               [] \<Rightarrow> (False, s)
             | c # r \<Rightarrow> if c = CHR ''-'' then (True, r)
                        else if c = CHR ''+'' then (False, r) else (False, s));
          ip = takeWhile (\<lambda>c. c \<noteq> CHR ''.'') digs;
          fp = drop 1 (dropWhile (\<lambda>c. c \<noteq> CHR ''.'') digs)
      in if ip = [] \<and> fp = [] then None
         else (case (digits_to_nat ip 0, digits_to_nat fp 0) of
                 (Some a, Some b) \<Rightarrow>
                   Some ((if neg then - 1 else 1) * (of_nat a + of_nat b / 10 ^ length fp))
               | _ \<Rightarrow> None))"

section \<open>Sample inputs\<close>

text \<open>
  A small classifier with three classes (a tree of two splits on one row), and the
  payloads used as examples below; the first is the valid input of \<^verbatim>\<open>test_api.py\<close>.
\<close>

definition stump_clf :: classifier where
  "stump_clf rows =
     map (\<lambda>r. case r of
                 [bl, bd, fl, bm] \<Rightarrow> if fl < 206 then (if bl < 43 then 0 else 1) else 2
               | _ \<Rightarrow> 0) rows"

definition sample_payload :: payload where
  "sample_payload =
     [''bill_length_mm'' \<mapsto> JNum (391 / 10), ''bill_depth_mm'' \<mapsto> JNum (187 / 10),
      ''flipper_length_mm'' \<mapsto> JNum 181, ''body_mass_g'' \<mapsto> JNum 3750]"




definition missing_payload :: payload where
  "missing_payload =
     [''bill_length_mm'' \<mapsto> JNum (391 / 10), ''bill_depth_mm'' \<mapsto> JNum (187 / 10),
      ''flipper_length_mm'' \<mapsto> JNum 181]"



text \<open>
  Three worlds for the start-up: nothing configured and the local file present; the
  store configured and answering; nothing configured and no local file.
\<close>

definition local_world :: world where
  "local_world =
     \<lparr>getenv = Map.empty,
      gcs_download = (\<lambda>b k. Inl (LibraryError ''NotFound'')),
      path_exists = (\<lambda>f. f = ''penguin_model.json''),
      load_model = (\<lambda>f. Inr stump_clf)\<rparr>"

definition remote_world :: world where
  "remote_world =
     \<lparr>getenv = [''GCS_BUCKET_NAME'' \<mapsto> ''models'', ''GCS_BLOB_NAME'' \<mapsto> ''penguin.json''],
      gcs_download = (\<lambda>b k. Inr ''/tmp/tmpmodel''),
      path_exists = (\<lambda>f. f = ''penguin_model.json''),
      load_model = (\<lambda>f. Inr stump_clf)\<rparr>"

definition bare_world :: world where
  "bare_world =
     \<lparr>getenv = Map.empty,
      gcs_download = (\<lambda>b k. Inl (LibraryError ''NotFound'')),
      path_exists = (\<lambda>f. False),
      load_model = (\<lambda>f. Inr stump_clf)\<rparr>"


section \<open>Validation lemmas\<close>




lemma field_error_listed:
  assumes "validate_field sf p k = Inl e" and "k \<in> set required_fields"
  shows "(k, e) \<in> set (field_errors sf p)"
  using assms by (auto simp: field_errors_def)

lemma field_error_validate:
  assumes "validate_field sf p k = Inl e" and "k \<in> set required_fields"
  shows "validate sf p = Inl (field_errors sf p)"
  using assms by (auto simp: validate_def required_fields_def split: sum.splits)

lemma field_error_response:
  assumes "validate_field sf p k = Inl e" and "k \<in> set required_fields"
  shows "post_predict model sf p = (\<lparr>status = 422, body = Detail (field_errors sf p)\<rparr>, [])"
  by (simp add: post_predict_def field_error_validate [OF assms])

section \<open>The classifier and the samples\<close>






section \<open>Accepted payloads and the fields that matter\<close>

lemma validate_sample:
  "validate sf sample_payload =
     Inr \<lparr>bill_length_mm = 391 / 10, bill_depth_mm = 187 / 10, flipper_length_mm = 181,
          body_mass_g = 3750\<rparr>"
  by (simp add: validate_def validate_field_def sample_payload_def number_ge_def
      check_not_negative_def)

lemma validate_test_sample:
  "validate_test sf sample_payload =
     Inr \<lparr>bill_length_mm = 391 / 10, bill_depth_mm = 187 / 10, flipper_length_mm = 181,
          body_mass_g = 3750\<rparr>"
  by (simp add: validate_test_def validate_field_test_def sample_payload_def number_ge_def)









section \<open>Start-up and request sequences\<close>

lemma download_remote_world: "download_model_from_gcs remote_world = Inr ''/tmp/tmpmodel''"
  by (simp add: download_model_from_gcs_def remote_world_def)

lemma download_bare_world:
  "download_model_from_gcs bare_world =
     Inl (ValueError ''GCS_BUCKET_NAME and GCS_BLOB_NAME env vars must be set'')"
  by (simp add: download_model_from_gcs_def bare_world_def)


section \<open>The route on valid payloads\<close>




section \<open>Rejected payloads\<close>


text \<open>A boolean is coerced too, whatever the string parser.\<close>

lemma boolean_coerced:
  "post_predict (Some stump_clf) sf (sample_payload(''bill_length_mm'' \<mapsto> JBool True)) =
     (\<lparr>status = 200, body = Prediction 0\<rparr>, [[[1, 187 / 10, 181, 3750]]])"
  by (simp add: post_predict_def validate_def validate_field_def
      sample_payload_def number_ge_def check_not_negative_def predict_def stump_clf_def
      py_int_def)





text \<open>
  C4. When a required field is missing, the request is answered with 422 and the
  classifier is not called.
\<close>

theorem missing_field_rejected:
  assumes "k \<in> set required_fields" and "p k = None"
  shows "post_predict model sf p = (\<lparr>status = 422, body = Detail (field_errors sf p)\<rparr>, [])
         \<and> (k, MissingError) \<in> set (field_errors sf p)"
proof -
  have "validate_field sf p k = Inl MissingError"
    using assms(2) by (simp add: validate_field_def)
  then show ?thesis
    using field_error_response field_error_listed assms(1) by blast
qed

text \<open>The test \<^verbatim>\<open>test_predict_endpoint_missing_field\<close>.\<close>

theorem missing_field_rejected_witness:
  "''body_mass_g'' \<in> set required_fields
   \<and> missing_payload ''body_mass_g'' = None
   \<and> post_predict (Some stump_clf) decimal_literal missing_payload =
       (\<lparr>status = 422, body = Detail [(''body_mass_g'', MissingError)]\<rparr>, [])"
proof -
  have k: "''body_mass_g'' \<in> set required_fields"
    by (simp add: required_fields_def)
  have v: "missing_payload ''body_mass_g'' = None"
    by (simp add: missing_payload_def)
  have e: "field_errors decimal_literal missing_payload = [(''body_mass_g'', MissingError)]"
    by (simp add: field_errors_def required_fields_def validate_field_def missing_payload_def
        number_ge_def check_not_negative_def)
  show ?thesis
    using missing_field_rejected [where k = "''body_mass_g''" and p = missing_payload
          and sf = decimal_literal and model = "Some stump_clf"] k v e by simp
qed

section \<open>Loading the model\<close>

text \<open>
  C5. The start-up code calls the remote fetch first and takes its path when it
  succeeds. When the fetch fails, with any exception, it takes the local path
  \<open>penguin_model.json\<close> if that file exists, and otherwise raises a RuntimeError, which
  ends the start-up. A missing (or empty) environment variable is one of these failures:
  with the local file present, the start-up goes on to load that file.
\<close>

theorem model_path_remote_then_local:
  "hd (fst (MODEL_PATH w)) = Download
   \<and> (\<forall>path. download_model_from_gcs w = Inr path \<longrightarrow> MODEL_PATH w = ([Download], Inr path))
   \<and> (\<forall>e. download_model_from_gcs w = Inl e \<and> path_exists w ''penguin_model.json'' \<longrightarrow>
          snd (MODEL_PATH w) = Inr ''penguin_model.json'')
   \<and> (\<forall>e. download_model_from_gcs w = Inl e \<and> \<not> path_exists w ''penguin_model.json'' \<longrightarrow>
          snd (MODEL_PATH w) = Inl (RuntimeError ''No model available'')
          \<and> startup w = Inl (RuntimeError ''No model available''))
   \<and> (py_not (getenv w ''GCS_BUCKET_NAME'') \<or> py_not (getenv w ''GCS_BLOB_NAME'') \<longrightarrow>
          (\<exists>msg. download_model_from_gcs w = Inl (ValueError msg))
          \<and> (path_exists w ''penguin_model.json'' \<longrightarrow>
                snd (MODEL_PATH w) = Inr ''penguin_model.json''
                \<and> startup w = (case load_model w ''penguin_model.json'' of
                                 Inl e \<Rightarrow> Inl e | Inr clf \<Rightarrow> Inr (Some clf))))"
proof (intro conjI allI impI)
  show "hd (fst (MODEL_PATH w)) = Download"
    by (simp add: MODEL_PATH_def split: sum.splits)
next
  fix path assume "download_model_from_gcs w = Inr path"
  then show "MODEL_PATH w = ([Download], Inr path)"
    by (simp add: MODEL_PATH_def)
next
  fix e assume "download_model_from_gcs w = Inl e \<and> path_exists w ''penguin_model.json''"
  then show "snd (MODEL_PATH w) = Inr ''penguin_model.json''"
    by (simp add: MODEL_PATH_def)
next
  fix e assume a: "download_model_from_gcs w = Inl e \<and> \<not> path_exists w ''penguin_model.json''"
  then show "snd (MODEL_PATH w) = Inl (RuntimeError ''No model available'')"
    by (simp add: MODEL_PATH_def)
  from a show "startup w = Inl (RuntimeError ''No model available'')"
    by (simp add: startup_def MODEL_PATH_def)
next
  assume c: "py_not (getenv w ''GCS_BUCKET_NAME'') \<or> py_not (getenv w ''GCS_BLOB_NAME'')"
  then have d: "download_model_from_gcs w =
      Inl (ValueError ''GCS_BUCKET_NAME and GCS_BLOB_NAME env vars must be set'')"
    by (auto simp: download_model_from_gcs_def Let_def)
  then show "\<exists>msg. download_model_from_gcs w = Inl (ValueError msg)"
    by blast
  assume x: "path_exists w ''penguin_model.json''"
  with d show "snd (MODEL_PATH w) = Inr ''penguin_model.json''"
    by (simp add: MODEL_PATH_def)
  from d x show "startup w = (case load_model w ''penguin_model.json'' of
                                 Inl e \<Rightarrow> Inl e | Inr clf \<Rightarrow> Inr (Some clf))"
    by (simp add: startup_def MODEL_PATH_def)
qed

text \<open>
  The three sample worlds: the store answers; nothing is configured and the local file
  exists; nothing is configured and there is no local file.
\<close>

theorem model_path_remote_then_local_witness:
  "download_model_from_gcs remote_world = Inr ''/tmp/tmpmodel''
   \<and> MODEL_PATH remote_world = ([Download], Inr ''/tmp/tmpmodel'')
   \<and> py_not (getenv local_world ''GCS_BUCKET_NAME'')
   \<and> path_exists local_world ''penguin_model.json''
   \<and> snd (MODEL_PATH local_world) = Inr ''penguin_model.json''
   \<and> startup local_world = Inr (Some stump_clf)
   \<and> \<not> path_exists bare_world ''penguin_model.json''
   \<and> startup bare_world = Inl (RuntimeError ''No model available'')"
proof -
  have l: "py_not (getenv local_world ''GCS_BUCKET_NAME'')"
    "path_exists local_world ''penguin_model.json''"
    "load_model local_world ''penguin_model.json'' = Inr stump_clf"
    by (simp_all add: local_world_def)
  have b: "\<not> path_exists bare_world ''penguin_model.json''"
    by (simp add: bare_world_def)
  show ?thesis
    using model_path_remote_then_local [of remote_world]
      model_path_remote_then_local [of local_world]
      model_path_remote_then_local [of bare_world]
      download_remote_world download_bare_world l b
    by simp
qed

section \<open>The row given to the classifier\<close>



section \<open>Determinism\<close>



section \<open>An absent model\<close>

text \<open>
  C8. With no model at request time, a request that passes validation is answered with
  status 500 and the classifier is not called: the handler of \<^verbatim>\<open>test_api.py\<close> tests
  for it and raises the HTTP error 500, and in \<^verbatim>\<open>main.py\<close> the attribute access on
  \<^verbatim>\<open>None\<close> raises before any prediction, which the framework answers with 500. A
  start-up of \<^verbatim>\<open>main.py\<close> that completes always leaves a model.
\<close>

theorem absent_model_server_error:
  "(\<forall>f. validate_test sf p = Inr f \<longrightarrow>
        post_predict_test None sf p =
          (\<lparr>status = 500, body = HTTPDetail ''Model not loaded''\<rparr>, []))
   \<and> (\<forall>f. validate sf p = Inr f \<longrightarrow>
        post_predict None sf p = (\<lparr>status = 500, body = InternalServerError\<rparr>, []))
   \<and> (\<forall>m. startup w = Inr m \<longrightarrow> m \<noteq> None)"
  by (auto simp: post_predict_test_def predict_test_def post_predict_def predict_def
      startup_def split: sum.splits)

text \<open>
  The valid input of \<^verbatim>\<open>test_api.py\<close>, with no model.
\<close>

theorem absent_model_server_error_witness:
  "validate_test decimal_literal sample_payload =
     Inr \<lparr>bill_length_mm = 391 / 10, bill_depth_mm = 187 / 10, flipper_length_mm = 181,
          body_mass_g = 3750\<rparr>
   \<and> post_predict_test None decimal_literal sample_payload =
       (\<lparr>status = 500, body = HTTPDetail ''Model not loaded''\<rparr>, [])
   \<and> post_predict None decimal_literal sample_payload =
       (\<lparr>status = 500, body = InternalServerError\<rparr>, [])
   \<and> startup local_world = Inr (Some stump_clf)"
proof -
  have s: "startup local_world = Inr (Some stump_clf)"
    by (simp add: startup_def MODEL_PATH_def download_model_from_gcs_def local_world_def)
  show ?thesis
    using absent_model_server_error [of decimal_literal sample_payload local_world]
      validate_test_sample [of decimal_literal] validate_sample [of decimal_literal] s
    by simp
qed

section \<open>Zero, and fields the schema does not declare\<close>





end
